theory Spec2Isabelle
  imports Main
begin

section \<open>The Go library functions the generator calls\<close>

text \<open>
  Go strings are byte sequences: \<open>string\<close> here, \<open>length\<close> is \<open>len\<close>. Go's \<open>int\<close> is taken
  at 64 bits. A runtime panic is a value of type \<open>panic\<close>, returned on the left of a sum.
\<close>

type_synonym bytes = string

definition NL :: char where
  "NL = CHR 0x0A"

definition TAB :: char where
  "TAB = CHR 0x09"

definition intSize :: nat where
  "intSize = 64"

definition maxInt :: int where
  "maxInt = 2 ^ (intSize - 1) - 1"

definition minInt :: int where
  "minInt = - (2 ^ (intSize - 1))"

datatype panic =
    IndexOutOfRange int nat
  | NegativeRepeatCount
  | RepeatOverflow

text \<open>\<open>xs[i]\<close> on a slice: the index and the length are carried by the panic.\<close>

definition index :: "'a list \<Rightarrow> int \<Rightarrow> panic + 'a" where
  "index xs i =
     (if 0 \<le> i \<and> i < int (length xs) then Inr (xs ! nat i)
      else Inl (IndexOutOfRange i (length xs)))"

text \<open>\<open>strings.Split(s, sep)\<close> for a separator of one byte: one more element than separators.\<close>

fun Split :: "string \<Rightarrow> char \<Rightarrow> string list" where
  "Split [] sep = [[]]"
| "Split (c # cs) sep =
     (if c = sep then [] # Split cs sep
      else (case Split cs sep of [] \<Rightarrow> [[c]] | l # ls \<Rightarrow> (c # l) # ls))"

text \<open>\<open>strings.SplitAfter(s, sep)\<close>: as \<open>Split\<close>, each element keeping its separator.\<close>

fun SplitAfter :: "string \<Rightarrow> char \<Rightarrow> string list" where
  "SplitAfter [] sep = [[]]"
| "SplitAfter (c # cs) sep =
     (if c = sep then [c] # SplitAfter cs sep
      else (case SplitAfter cs sep of [] \<Rightarrow> [[c]] | l # ls \<Rightarrow> (c # l) # ls))"

text \<open>\<open>strings.Trim(s, cutset)\<close>: leading and trailing bytes of the cutset removed.\<close>

definition Trim :: "string \<Rightarrow> string \<Rightarrow> string" where
  "Trim s cutset =
     rev (dropWhile (\<lambda>c. c \<in> set cutset) (rev (dropWhile (\<lambda>c. c \<in> set cutset) s)))"

text \<open>\<open>strings.Repeat(s, count)\<close> panics on a negative count and on a result too long.\<close>

definition Repeat :: "string \<Rightarrow> int \<Rightarrow> panic + string" where
  "Repeat s count =
     (if count < 0 then Inl NegativeRepeatCount
      else if maxInt < int (length s) * count then Inl RepeatOverflow
      else Inr (concat (replicate (nat count) s)))"

definition isDigit :: "char \<Rightarrow> bool" where
  "isDigit c = (c \<in> set ''0123456789'')"

definition digitVal :: "char \<Rightarrow> nat" where
  "digitVal c = of_char c - 48"

definition decVal :: "string \<Rightarrow> nat" where
  "decVal s = foldl (\<lambda>n c. 10 * n + digitVal c) 0 s"

text \<open>
  \<open>strconv.Atoi\<close>: an optional sign, then decimal digits; \<open>None\<close> is its error (wrong syntax,
  or a value outside \<open>int\<close>), whose kind the generator never reads.
\<close>

definition Atoi :: "string \<Rightarrow> int option" where
  "Atoi s =
     (let neg = (s \<noteq> [] \<and> hd s = CHR ''-'');
          ds = (if s \<noteq> [] \<and> (hd s = CHR ''-'' \<or> hd s = CHR ''+'') then tl s else s)
      in if ds = [] \<or> \<not> list_all isDigit ds then None
         else (let v = (if neg then - int (decVal ds) else int (decVal ds))
               in if v < minInt \<or> maxInt < v then None else Some v))"

text \<open>The verb \<open>%d\<close> of \<open>fmt.Sprintf\<close> on an \<open>int\<close>.\<close>

fun digits10 :: "nat \<Rightarrow> string" where
  "digits10 n =
     (if n < 10 then [''0123456789'' ! n]
      else digits10 (n div 10) @ [''0123456789'' ! (n mod 10)])"

declare digits10.simps [simp del]

definition itoa :: "int \<Rightarrow> string" where
  "itoa i = (if i < 0 then CHR ''-'' # digits10 (nat (- i)) else digits10 (nat i))"

section \<open>Errors\<close>

text \<open>
  An \<open>error\<close> that carries a message: one made by a library (\<open>ErrorString\<close>, known by its
  text), or the result of \<open>errors.Wrap(cause, msg)\<close> of \<open>github.com/pkg/errors\<close>
  (\<open>WithMessage\<close>: the library's message wrapper inside its stack wrapper, taken as one
  value), which keeps the cause and prints \<open>msg: cause\<close>. \<open>Unwrap\<close> gives the cause kept by
  a wrapper. The generator never passes \<open>nil\<close> to \<open>Wrap\<close>.
\<close>

datatype error =
    ErrorString string
  | WithMessage error string

fun Error :: "error \<Rightarrow> string" where
  "Error (ErrorString s) = s"
| "Error (WithMessage cause msg) = msg @ '': '' @ Error cause"

definition Wrap :: "error \<Rightarrow> string \<Rightarrow> error" where
  "Wrap err message = WithMessage err message"

fun Unwrap :: "error \<Rightarrow> error option" where
  "Unwrap (ErrorString s) = None"
| "Unwrap (WithMessage cause msg) = Some cause"

section \<open>The line mapper\<close>

text \<open>
  \<open>errImportsRx.FindStringSubmatch\<close> for the expression \<open>^(\d+):(\d+):\<close>: the whole match and
  the two groups, or the empty list (\<open>nil\<close>) when the text does not start with a locator.
  \<open>\d\<close> is an ASCII digit and \<open>+\<close> is greedy, so each group is the longest run of digits.
\<close>

definition errImportsRx :: "string \<Rightarrow> string list" where
  "errImportsRx s =
     (let d1 = takeWhile isDigit s; r1 = dropWhile isDigit s
      in if d1 = [] then []
         else (case r1 of
                 [] \<Rightarrow> []
               | c1 # r2 \<Rightarrow>
                   if c1 \<noteq> CHR '':'' then []
                   else (let d2 = takeWhile isDigit r2; r3 = dropWhile isDigit r2
                         in if d2 = [] then []
                            else (case r3 of
                                    [] \<Rightarrow> []
                                  | c2 # r4 \<Rightarrow>
                                      if c2 \<noteq> CHR '':'' then []
                                      else [d1 @ '':'' @ d2 @ '':'', d1, d2]))))"

definition ErrorLine :: "error \<Rightarrow> string \<Rightarrow> panic + error" where
  "ErrorLine errIn genData =
     (let findErr = errImportsRx (Error errIn)
      in if length findErr = 3 then
           (case Atoi (findErr ! 1) of
              None \<Rightarrow> Inr (Wrap errIn ''can't unparse error line num'')
            | Some lineNum \<Rightarrow>
                (let lines = Split genData NL
                 in if int (length lines) < lineNum then
                      Inr (Wrap errIn (''line num '' @ itoa lineNum @ '' not found (total ''
                                        @ itoa (int (length lines)) @ '')''))
                    else
                      (case index lines (lineNum - 1) of
                         Inl p \<Rightarrow> Inl p
                       | Inr line \<Rightarrow>
                           (case Atoi (findErr ! 2) of
                              None \<Rightarrow>
                                Inr (Wrap errIn (''can't unparse error byte num in line: '' @ line))
                            | Some byteNum \<Rightarrow>
                                if int (length line) < byteNum then
                                  Inr (Wrap errIn (''byte num not found in line: '' @ line))
                                else
                                  (case index lines (lineNum - 2) of
                                     Inl p \<Rightarrow> Inl p
                                   | Inr before \<Rightarrow>
                                       (case Repeat '' '' (byteNum - 1) of
                                          Inl p \<Rightarrow> Inl p
                                        | Inr pad \<Rightarrow>
                                            (case index lines lineNum of
                                               Inl p \<Rightarrow> Inl p
                                             | Inr after \<Rightarrow>
                                                 Inr (Wrap errIn
                                                   ([NL] @ Trim before [TAB] @ [NL]
                                                    @ Trim line [TAB] @ [NL]
                                                    @ pad @ ''^^^^^'' @ [NL]
                                                    @ Trim after [TAB])))))))))
         else Inr (Wrap errIn ''cant parse error message''))"

section \<open>The data the generator reads and returns\<close>

text \<open>
  The package \<open>ds\<close> is declared outside this file. Its declarations are opaque types; of a
  namespace only the two names the generator reads are kept. \<open>List\<close>, the method of
  \<open>ds.ProcFieldDeclarations\<close>, is passed to \<open>NewPkgData\<close> as a function.
\<close>

typedecl FieldDeclaration
typedecl FieldObject
typedecl ProcFieldDeclaration
typedecl ProcFieldDeclarations
typedecl ServerDeclaration
typedecl IndexDeclaration
typedecl SerializerDeclaration
typedecl MutatorDeclaration
typedecl ImportDeclaration
typedecl TriggerDeclaration
typedecl FlagDeclaration

record NamespaceDeclaration =
  PackageName :: string
  PublicName :: string

record RecordPackage =
  Server :: ServerDeclaration
  Namespace :: NamespaceDeclaration
  Fields :: "FieldDeclaration list"
  FieldsMap :: "string \<rightharpoonup> int"
  FieldsObjectMap :: "string \<rightharpoonup> FieldObject"
  Indexes :: "IndexDeclaration list"
  ProcInFields :: "ProcFieldDeclaration list"
  ProcOutFields :: ProcFieldDeclarations
  SerializerMap :: "string \<rightharpoonup> SerializerDeclaration"
  MutatorMap :: "string \<rightharpoonup> MutatorDeclaration"
  Imports :: "ImportDeclaration list"
  TriggerMap :: "string \<rightharpoonup> TriggerDeclaration"
  FlagMap :: "string \<rightharpoonup> FlagDeclaration"
  Backends :: "string list"

definition disclaimer :: string where
  "disclaimer =
     ''// Code generated by argen. DO NOT EDIT.'' @ [NL]
     @ ''// This code was generated from a template.'' @ [NL]
     @ ''//'' @ [NL]
     @ ''// Manual changes to this file may cause unexpected behavior in your application.'' @ [NL]
     @ ''// Manual changes to this file will be overwritten if the code is regenerated.'' @ [NL]
     @ ''//'' @ [NL]
     @ ''// Generate info: {{ .AppInfo }}'' @ [NL]"

record PkgData =
  ARPkg :: string
  ARPkgTitle :: string
  FieldList :: "FieldDeclaration list"
  FieldMap :: "string \<rightharpoonup> int"
  FieldObject :: "string \<rightharpoonup> FieldObject"
  LinkedObject :: "string \<rightharpoonup> RecordPackage"
  ProcInFieldList :: "ProcFieldDeclaration list"
  ProcOutFieldList :: "ProcFieldDeclaration list"
  Server :: ServerDeclaration
  Container :: NamespaceDeclaration
  Indexes :: "IndexDeclaration list"
  Serializers :: "string \<rightharpoonup> SerializerDeclaration"
  Mutators :: "string \<rightharpoonup> MutatorDeclaration"
  Imports :: "ImportDeclaration list"
  Triggers :: "string \<rightharpoonup> TriggerDeclaration"
  Flags :: "string \<rightharpoonup> FlagDeclaration"
  AppInfo :: string

definition NewPkgData ::
  "(ProcFieldDeclarations \<Rightarrow> ProcFieldDeclaration list) \<Rightarrow> string \<Rightarrow> RecordPackage \<Rightarrow> PkgData"
where
  "NewPkgData List appInfo cl =
     \<lparr>ARPkg = PackageName (RecordPackage.Namespace cl),
      ARPkgTitle = PublicName (RecordPackage.Namespace cl),
      FieldList = RecordPackage.Fields cl,
      FieldMap = RecordPackage.FieldsMap cl,
      FieldObject = RecordPackage.FieldsObjectMap cl,
      LinkedObject = Map.empty,
      ProcInFieldList = RecordPackage.ProcInFields cl,
      ProcOutFieldList = List (RecordPackage.ProcOutFields cl),
      Server = RecordPackage.Server cl,
      Container = RecordPackage.Namespace cl,
      Indexes = RecordPackage.Indexes cl,
      Serializers = RecordPackage.SerializerMap cl,
      Mutators = RecordPackage.MutatorMap cl,
      Imports = RecordPackage.Imports cl,
      Triggers = RecordPackage.TriggerMap cl,
      Flags = RecordPackage.FlagMap cl,
      AppInfo = appInfo\<rparr>"

definition TemplateName :: string where
  "TemplateName = ''ARPkgTemplate''"

record GenerateFile =
  Data :: bytes
  Name :: string
  Dir :: string
  Backend :: string

record MetaData =
  Namespaces :: "RecordPackage list"
  AppInfo :: string

text \<open>
  The package \<open>arerror\<close> is declared outside this file: the two diagnostics have the fields
  the generator sets (a field it leaves out is the empty string), and the two conditions
  are two distinct values. The \<open>Err\<close> of an \<open>ErrGeneratorFile\<close> holds one of the conditions,
  a diagnostic of the phases, or an error with a message.
\<close>

record ErrGeneratorPhases =
  Name :: string
  Backend :: string
  Phase :: string
  TmplLines :: string
  Err :: error

datatype cause =
    ErrGeneratorBackendNotImplemented
  | ErrGeneratorBackendUnknown
  | PhasesError ErrGeneratorPhases
  | MessageError error

record ErrGeneratorFile =
  Name :: string
  Backend :: string
  Filename :: string
  Err :: cause

text \<open>What \<open>Generate\<close> returns as its \<open>error\<close>: one of the two diagnostics.\<close>

datatype generate_error =
    GeneratorPhases ErrGeneratorPhases
  | GeneratorFile ErrGeneratorFile

fun diagnosticName :: "generate_error \<Rightarrow> string" where
  "diagnosticName (GeneratorPhases e) = ErrGeneratorPhases.Name e"
| "diagnosticName (GeneratorFile e) = ErrGeneratorFile.Name e"

section \<open>Rendering a template\<close>

text \<open>
  \<open>text/template\<close> is a library: \<open>Parse name text\<close> stands for
  \<open>template.New(name).Funcs(funcs).Funcs(OctopusTemplateFuncs).Parse(text)\<close>, and
  \<open>Execute t params\<close> gives the bytes written to the destination and the error, if any.
  \<open>getTmplErrorLine\<close> is declared in another file of the package and is passed as a function.
  The destination is the bytes written to it so far.
\<close>

definition tmplLinesOf ::
  "(string list \<Rightarrow> string \<Rightarrow> string \<times> error option) \<Rightarrow> string \<Rightarrow> error \<Rightarrow> string"
where
  "tmplLinesOf getTmplErrorLine text err =
     (case getTmplErrorLine (SplitAfter text NL) (Error err) of
        (tmplLines, None) \<Rightarrow> tmplLines
      | (tmplLines, Some errgetline) \<Rightarrow> Error errgetline)"

definition GenerateByTmpl ::
  "(string \<Rightarrow> string \<Rightarrow> error + 't) \<Rightarrow> ('t \<Rightarrow> 'p \<Rightarrow> bytes \<times> error option)
   \<Rightarrow> (string list \<Rightarrow> string \<Rightarrow> string \<times> error option)
   \<Rightarrow> bytes \<Rightarrow> 'p \<Rightarrow> string \<Rightarrow> string \<Rightarrow> bytes \<times> ErrGeneratorPhases option"
where
  "GenerateByTmpl Parse Execute getTmplErrorLine dstFile params name tmpl =
     (case Parse TemplateName (disclaimer @ tmpl) of
        Inl err \<Rightarrow>
          (dstFile,
           Some \<lparr>ErrGeneratorPhases.Name = [], Backend = name, Phase = ''parse'',
                 TmplLines = tmplLinesOf getTmplErrorLine (disclaimer @ tmpl) err, Err = err\<rparr>)
      | Inr templatePackage \<Rightarrow>
          (case Execute templatePackage params of
             (written, Some err) \<Rightarrow>
               (dstFile @ written,
                Some \<lparr>ErrGeneratorPhases.Name = [], Backend = name, Phase = ''execute'',
                      TmplLines = tmplLinesOf getTmplErrorLine (disclaimer @ tmpl) err,
                      Err = err\<rparr>)
           | (written, None) \<Rightarrow> (dstFile @ written, None)))"

section \<open>The meta file\<close>

text \<open>
  \<open>Process src\<close> stands for \<open>imports.Process("", src, nil)\<close>; \<open>MetaTmpl\<close> is the embedded
  template file.
\<close>

definition GenerateMeta ::
  "(string \<Rightarrow> string \<Rightarrow> error + 't) \<Rightarrow> ('t \<Rightarrow> MetaData \<Rightarrow> bytes \<times> error option)
   \<Rightarrow> (string list \<Rightarrow> string \<Rightarrow> string \<times> error option)
   \<Rightarrow> (bytes \<Rightarrow> error + bytes) \<Rightarrow> string \<Rightarrow> MetaData
   \<Rightarrow> panic + (GenerateFile list \<times> ErrGeneratorFile option)"
where
  "GenerateMeta Parse Execute getTmplErrorLine Process MetaTmpl params =
     (case GenerateByTmpl Parse Execute getTmplErrorLine [] params ''meta'' MetaTmpl of
        (metaWriter, Some err) \<Rightarrow>
          Inr ([], Some \<lparr>ErrGeneratorFile.Name = ''repository.go'', Backend = ''meta'',
                          Filename = ''repository.go'', Err = PhasesError err\<rparr>)
      | (genData, None) \<Rightarrow>
          (case Process genData of
             Inl err \<Rightarrow>
               (case ErrorLine err genData of
                  Inl p \<Rightarrow> Inl p
                | Inr located \<Rightarrow>
                    Inr ([], Some \<lparr>ErrGeneratorFile.Name = ''repository.go'', Backend = ''meta'',
                                    Filename = ''repository.go'', Err = MessageError located\<rparr>))
           | Inr data \<Rightarrow>
               Inr ([\<lparr>Data = data, Name = ''repository.go'', Dir = [], Backend = ''meta''\<rparr>],
                    None)))"

section \<open>Dispatch on the backends\<close>

text \<open>
  \<open>GenerateOctopus\<close> is declared in another file of the package and is passed as a function;
  the map it returns is the list of its entries in the order the \<open>range\<close> loop visits them.
  Each call of it is recorded, with the backend being dispatched and its argument, in the
  list the loop returns beside the result. The result is the pair \<open>(ret, err)\<close> that Go
  returns. The call of \<open>log.Printf\<close> is left out.
\<close>

fun rangeGenerated ::
  "(bytes \<Rightarrow> error + bytes) \<Rightarrow> RecordPackage \<Rightarrow> string \<Rightarrow> (string \<times> bytes) list
   \<Rightarrow> GenerateFile list \<Rightarrow> panic + (GenerateFile list \<times> generate_error option)"
where
  "rangeGenerated Process cl backend [] ret = Inr (ret, None)"
| "rangeGenerated Process cl backend ((name, genData) # generated) ret =
     (case Process genData of
        Inl err \<Rightarrow>
          (case ErrorLine err genData of
             Inl p \<Rightarrow> Inl p
           | Inr located \<Rightarrow>
               Inr ([], Some (GeneratorFile
                 \<lparr>ErrGeneratorFile.Name = PublicName (RecordPackage.Namespace cl),
                  Backend = backend, Filename = name @ ''.go'', Err = MessageError located\<rparr>)))
      | Inr data \<Rightarrow>
          rangeGenerated Process cl backend generated
            (ret @ [\<lparr>Data = data, Name = name @ ''.go'',
                     Dir = PackageName (RecordPackage.Namespace cl), Backend = backend\<rparr>]))"

fun rangeBackends ::
  "(ProcFieldDeclarations \<Rightarrow> ProcFieldDeclaration list)
   \<Rightarrow> (PkgData \<Rightarrow> ErrGeneratorPhases + (string \<times> bytes) list)
   \<Rightarrow> (bytes \<Rightarrow> error + bytes) \<Rightarrow> string \<Rightarrow> RecordPackage \<Rightarrow> (string \<rightharpoonup> RecordPackage)
   \<Rightarrow> string list \<Rightarrow> (string \<times> PkgData) list \<Rightarrow> GenerateFile list
   \<Rightarrow> (string \<times> PkgData) list \<times> (panic + (GenerateFile list \<times> generate_error option))"
where
  "rangeBackends List GenerateOctopus Process appInfo cl linkObject [] calls ret =
     (calls, Inr (ret, None))"
| "rangeBackends List GenerateOctopus Process appInfo cl linkObject (backend # backends) calls ret =
     (if backend = ''tarantool15'' \<or> backend = ''octopus'' then
        (let params = (NewPkgData List appInfo cl)\<lparr>LinkedObject := linkObject\<rparr>;
             calls' = calls @ [(backend, params)]
         in case GenerateOctopus params of
              Inl err \<Rightarrow>
                (calls', Inr ([], Some (GeneratorPhases
                   (err\<lparr>ErrGeneratorPhases.Name := PublicName (RecordPackage.Namespace cl)\<rparr>))))
            | Inr generated \<Rightarrow>
                (case rangeGenerated Process cl backend generated ret of
                   Inl p \<Rightarrow> (calls', Inl p)
                 | Inr (ret', Some e) \<Rightarrow> (calls', Inr (ret', Some e))
                 | Inr (ret', None) \<Rightarrow>
                     rangeBackends List GenerateOctopus Process appInfo cl linkObject backends
                       calls' ret'))
      else if backend = ''tarantool16'' \<or> backend = ''tarantool2'' then
        (calls, Inr ([], Some (GeneratorFile
           \<lparr>ErrGeneratorFile.Name = PublicName (RecordPackage.Namespace cl), Backend = backend,
            Filename = [], Err = ErrGeneratorBackendNotImplemented\<rparr>)))
      else if backend = ''postgres'' then
        (calls, Inr ([], Some (GeneratorFile
           \<lparr>ErrGeneratorFile.Name = PublicName (RecordPackage.Namespace cl), Backend = backend,
            Filename = [], Err = ErrGeneratorBackendNotImplemented\<rparr>)))
      else
        (calls, Inr ([], Some (GeneratorFile
           \<lparr>ErrGeneratorFile.Name = PublicName (RecordPackage.Namespace cl), Backend = backend,
            Filename = [], Err = ErrGeneratorBackendUnknown\<rparr>))))"

definition Generate ::
  "(ProcFieldDeclarations \<Rightarrow> ProcFieldDeclaration list)
   \<Rightarrow> (PkgData \<Rightarrow> ErrGeneratorPhases + (string \<times> bytes) list)
   \<Rightarrow> (bytes \<Rightarrow> error + bytes) \<Rightarrow> string \<Rightarrow> RecordPackage \<Rightarrow> (string \<rightharpoonup> RecordPackage)
   \<Rightarrow> (string \<times> PkgData) list \<times> (panic + (GenerateFile list \<times> generate_error option))"
where
  "Generate List GenerateOctopus Process appInfo cl linkObject =
     rangeBackends List GenerateOctopus Process appInfo cl linkObject
       (RecordPackage.Backends cl) [] []"

section \<open>An example package\<close>

text \<open>
  A package named \<open>foo\<close> (display name \<open>Foo\<close>) with no fields, for the given backends. Its
  server declaration and its procedure output fields are left unspecified: the generator only
  copies them.
\<close>

definition examplePackage :: "string list \<Rightarrow> RecordPackage" where
  "examplePackage backends =
     \<lparr>RecordPackage.Server = undefined,
      Namespace = \<lparr>PackageName = ''foo'', PublicName = ''Foo''\<rparr>,
      Fields = [], FieldsMap = Map.empty, FieldsObjectMap = Map.empty,
      RecordPackage.Indexes = [], ProcInFields = [], ProcOutFields = undefined,
      SerializerMap = Map.empty, MutatorMap = Map.empty, RecordPackage.Imports = [],
      TriggerMap = Map.empty, FlagMap = Map.empty, Backends = backends\<rparr>"

section \<open>Facts about the library functions\<close>

lemma colon_not_digit: "\<not> isDigit (CHR '':'')"
  by (simp add: isDigit_def)

lemma sign_not_digit: "isDigit c \<Longrightarrow> c \<noteq> CHR ''-'' \<and> c \<noteq> CHR ''+''"
  by (auto simp: isDigit_def)

lemma takeWhile_digits:
  "list_all isDigit ds \<Longrightarrow> takeWhile isDigit (ds @ CHR '':'' # r) = ds"
  by (induction ds) (simp_all add: colon_not_digit)

lemma dropWhile_digits:
  "list_all isDigit ds \<Longrightarrow> dropWhile isDigit (ds @ CHR '':'' # r) = CHR '':'' # r"
  by (induction ds) (simp_all add: colon_not_digit)

lemma errImportsRx_locator:
  assumes "d1 \<noteq> []" "list_all isDigit d1" "d2 \<noteq> []" "list_all isDigit d2"
  shows "errImportsRx (d1 @ '':'' @ d2 @ '':'' @ rest) = [d1 @ '':'' @ d2 @ '':'', d1, d2]"
  using assms by (simp add: errImportsRx_def takeWhile_digits dropWhile_digits)

lemma errImportsRx_cases:
  "errImportsRx s = [] \<or>
   (\<exists>d1 d2 rest. s = d1 @ '':'' @ d2 @ '':'' @ rest \<and> d1 \<noteq> [] \<and> list_all isDigit d1
       \<and> d2 \<noteq> [] \<and> list_all isDigit d2 \<and> errImportsRx s = [d1 @ '':'' @ d2 @ '':'', d1, d2])"
proof (cases "errImportsRx s = []")
  case True
  then show ?thesis by simp
next
  case False
  define d1 where "d1 = takeWhile isDigit s"
  define r1 where "r1 = dropWhile isDigit s"
  have s1: "s = d1 @ r1" by (simp add: d1_def r1_def)
  from False have n1: "d1 \<noteq> []"
    by (auto simp: errImportsRx_def d1_def Let_def)
  from False n1 obtain r2 where r1: "r1 = CHR '':'' # r2"
    by (auto simp: errImportsRx_def d1_def r1_def Let_def split: list.splits if_splits)
  define d2 where "d2 = takeWhile isDigit r2"
  define r3 where "r3 = dropWhile isDigit r2"
  have s2: "r2 = d2 @ r3" by (simp add: d2_def r3_def)
  from False n1 r1 have n2: "d2 \<noteq> []"
    by (auto simp: errImportsRx_def d1_def r1_def d2_def Let_def split: list.splits if_splits)
  from False n1 r1 n2 obtain r4 where r3: "r3 = CHR '':'' # r4"
    by (auto simp: errImportsRx_def d1_def r1_def d2_def r3_def Let_def split: list.splits if_splits)
  have a1: "list_all isDigit d1" unfolding d1_def list_all_iff by (auto dest: set_takeWhileD)
  have a2: "list_all isDigit d2" unfolding d2_def list_all_iff by (auto dest: set_takeWhileD)
  have s: "s = d1 @ '':'' @ d2 @ '':'' @ r4" using s1 r1 s2 r3 by simp
  show ?thesis
    using errImportsRx_locator [OF n1 a1 n2 a2, of r4] s n1 a1 n2 a2 by blast
qed

lemma Atoi_digits:
  assumes "ds \<noteq> []" "list_all isDigit ds"
  shows "Atoi ds = (if maxInt < int (decVal ds) then None else Some (int (decVal ds)))"
proof -
  from assms obtain c r where ds: "ds = c # r" by (cases ds) auto
  with assms have "isDigit c" by simp
  then have "c \<noteq> CHR ''-''" "c \<noteq> CHR ''+''" using sign_not_digit by auto
  moreover have "minInt \<le> 0" by (simp add: minInt_def)
  then have "\<not> int (decVal ds) < minInt" by linarith
  ultimately show ?thesis using assms ds by (simp add: Atoi_def Let_def)
qed

lemma Split_not_Nil: "Split s sep \<noteq> []"
  by (induction s) (auto split: list.splits)

lemma length_Split: "length (Split s sep) \<le> Suc (length s)"
  by (induction s) (auto split: list.splits)

lemma length_Split_elem: "\<forall>l \<in> set (Split s sep). length l \<le> length s"
  by (induction s) (auto split: list.splits simp: le_SucI)

section \<open>The line mapper on a message that starts with a locator\<close>

lemma ErrorLine_locator:
  assumes msg: "Error errIn = d1 @ '':'' @ d2 @ '':'' @ rest"
    and d: "d1 \<noteq> []" "list_all isDigit d1" "d2 \<noteq> []" "list_all isDigit d2"
  shows "ErrorLine errIn genData =
     (if maxInt < int (decVal d1) then Inr (Wrap errIn ''can't unparse error line num'')
      else if length (Split genData NL) < decVal d1 then
        Inr (Wrap errIn (''line num '' @ itoa (int (decVal d1)) @ '' not found (total ''
                          @ itoa (int (length (Split genData NL))) @ '')''))
      else if decVal d1 = 0 then Inl (IndexOutOfRange (- 1) (length (Split genData NL)))
      else if maxInt < int (decVal d2) then
        Inr (Wrap errIn (''can't unparse error byte num in line: ''
                          @ Split genData NL ! (decVal d1 - 1)))
      else if length (Split genData NL ! (decVal d1 - 1)) < decVal d2 then
        Inr (Wrap errIn (''byte num not found in line: '' @ Split genData NL ! (decVal d1 - 1)))
      else if decVal d1 = 1 then Inl (IndexOutOfRange (- 1) (length (Split genData NL)))
      else if decVal d2 = 0 then Inl NegativeRepeatCount
      else if decVal d1 = length (Split genData NL) then
        Inl (IndexOutOfRange (int (decVal d1)) (length (Split genData NL)))
      else Inr (Wrap errIn
             ([NL] @ Trim (Split genData NL ! (decVal d1 - 2)) [TAB] @ [NL]
              @ Trim (Split genData NL ! (decVal d1 - 1)) [TAB] @ [NL]
              @ replicate (decVal d2 - 1) (CHR '' '') @ ''^^^^^'' @ [NL]
              @ Trim (Split genData NL ! decVal d1) [TAB])))"
proof -
  have rx: "errImportsRx (Error errIn) = [d1 @ '':'' @ d2 @ '':'', d1, d2]"
    using errImportsRx_locator [OF d] msg by simp
  have rep: "concat (replicate n '' '') = replicate n (CHR '' '')" for n
    by (induction n) simp_all
  have n2: "nat (int k - 2) = k - 2" "nat (int k - 1) = k - 1" for k :: nat
    by simp_all
  show ?thesis
    unfolding ErrorLine_def rx
    by (auto simp: Atoi_digits [OF d(1,2)] Atoi_digits [OF d(3,4)] Let_def index_def
        Repeat_def rep n2)
qed

lemma Split_nth_length:
  assumes "i < length (Split s sep)"
  shows "length (Split s sep ! i) \<le> length s"
  using length_Split_elem [of s sep] assms nth_mem by blast

text \<open>
  C2. The error message starts with a locator \<open>k:c:\<close> (digit strings \<open>d1\<close>, \<open>d2\<close> of values
  \<open>k\<close>, \<open>c\<close>), the text has \<open>N\<close> lines, \<open>2 \<le> k \<le> N - 1\<close> and \<open>1 \<le> c \<le> len(line k)\<close>: the
  result wraps the original error, and its message is a newline, line \<open>k - 1\<close> tab-trimmed,
  line \<open>k\<close> tab-trimmed, \<open>c - 1\<close> spaces and the five carets, and the tab-trimmed element of
  index \<open>k\<close> of the array of lines. The text is a Go string: its length is an \<open>int\<close>.
\<close>

theorem ErrorLine_snippet:
  assumes msg: "Error errIn = d1 @ '':'' @ d2 @ '':'' @ rest"
    and d: "d1 \<noteq> []" "list_all isDigit d1" "d2 \<noteq> []" "list_all isDigit d2"
    and len: "int (length genData) \<le> maxInt"
    and k: "2 \<le> decVal d1" "decVal d1 \<le> length (Split genData NL) - 1"
    and c: "1 \<le> decVal d2" "decVal d2 \<le> length (Split genData NL ! (decVal d1 - 1))"
  shows "ErrorLine errIn genData =
     Inr (Wrap errIn
       ([NL] @ Trim (Split genData NL ! (decVal d1 - 2)) [TAB] @ [NL]
        @ Trim (Split genData NL ! (decVal d1 - 1)) [TAB] @ [NL]
        @ replicate (decVal d2 - 1) (CHR '' '') @ ''^^^^^'' @ [NL]
        @ Trim (Split genData NL ! decVal d1) [TAB]))"
proof -
  have N: "length (Split genData NL) \<le> Suc (length genData)"
    by (rule length_Split)
  have k1: "decVal d1 - 1 < length (Split genData NL)"
    using k by arith
  have "decVal d1 \<le> length genData"
    using k N by arith
  then have kmax: "\<not> maxInt < int (decVal d1)"
    using len by linarith
  have "decVal d2 \<le> length genData"
    using c(2) Split_nth_length [OF k1] by linarith
  then have cmax: "\<not> maxInt < int (decVal d2)"
    using len by linarith
  have f: "\<not> length (Split genData NL) < decVal d1" "decVal d1 \<noteq> 0" "decVal d1 \<noteq> 1"
    "decVal d2 \<noteq> 0" "decVal d1 \<noteq> length (Split genData NL)"
    "\<not> length (Split genData NL ! (decVal d1 - 1)) < decVal d2"
    using k c by arith+
  show ?thesis
    unfolding ErrorLine_locator [OF msg d]
    using kmax cmax f by (simp only: if_False)
qed

theorem ErrorLine_snippet_witness:
  "ErrorLine (ErrorString ''2:3: boom'') (''a'' @ [NL] @ [TAB] @ ''bcd'' @ [NL] @ ''e'' @ [NL]) =
     Inr (Wrap (ErrorString ''2:3: boom'')
            ([NL] @ ''a'' @ [NL] @ ''bcd'' @ [NL] @ ''  ^^^^^'' @ [NL] @ ''e''))"
  using ErrorLine_snippet [of "ErrorString ''2:3: boom''" "''2''" "''3''" "'' boom''"
      "''a'' @ [NL] @ [TAB] @ ''bcd'' @ [NL] @ ''e'' @ [NL]"]
  by (simp add: isDigit_def decVal_def digitVal_def maxInt_def intSize_def NL_def TAB_def Trim_def
      numeral_2_eq_2)

text \<open>
  C3. On a message with a locator \<open>k:c:\<close> that passes the checks of the line mapper
  (\<open>1 \<le> k \<le> N\<close> and \<open>c \<le> len(line k)\<close>), the line mapper panics instead of returning: for
  \<open>k = 1\<close> the line before is read at index \<open>-1\<close>; for \<open>c = 0\<close> (and \<open>k \<ge> 2\<close>) the padding
  is a repeat of count \<open>-1\<close>; for \<open>k = N\<close> (and \<open>k \<ge> 2\<close>, \<open>c \<ge> 1\<close>) the line after is read at
  index \<open>N\<close>. The operands are evaluated from left to right, so the first of these
  faults is the one raised. The text and the array of lines have lengths within \<open>int\<close>.
\<close>

theorem ErrorLine_faults:
  assumes msg: "Error errIn = d1 @ '':'' @ d2 @ '':'' @ rest"
    and d: "d1 \<noteq> []" "list_all isDigit d1" "d2 \<noteq> []" "list_all isDigit d2"
    and len: "int (length genData) \<le> maxInt" "int (length (Split genData NL)) \<le> maxInt"
    and k: "1 \<le> decVal d1" "decVal d1 \<le> length (Split genData NL)"
    and c: "decVal d2 \<le> length (Split genData NL ! (decVal d1 - 1))"
  shows "(decVal d1 = 1 \<longrightarrow>
            ErrorLine errIn genData = Inl (IndexOutOfRange (- 1) (length (Split genData NL))))
       \<and> (2 \<le> decVal d1 \<and> decVal d2 = 0 \<longrightarrow>
            ErrorLine errIn genData = Inl NegativeRepeatCount)
       \<and> (2 \<le> decVal d1 \<and> 1 \<le> decVal d2 \<and> decVal d1 = length (Split genData NL) \<longrightarrow>
            ErrorLine errIn genData =
              Inl (IndexOutOfRange (int (length (Split genData NL))) (length (Split genData NL))))
       \<and> (decVal d1 = 1 \<or> decVal d1 = length (Split genData NL) \<or> decVal d2 = 0 \<longrightarrow>
            isl (ErrorLine errIn genData))"
proof -
  have k1: "decVal d1 - 1 < length (Split genData NL)"
    using k by arith
  have kmax: "\<not> maxInt < int (decVal d1)"
    using k len by linarith
  have "decVal d2 \<le> length genData"
    using c Split_nth_length [OF k1] by linarith
  then have cmax: "\<not> maxInt < int (decVal d2)"
    using len by linarith
  have f: "\<not> length (Split genData NL) < decVal d1" "decVal d1 \<noteq> 0"
    "\<not> length (Split genData NL ! (decVal d1 - 1)) < decVal d2"
    using k c by arith+
  have eq: "ErrorLine errIn genData =
     (if decVal d1 = 1 then Inl (IndexOutOfRange (- 1) (length (Split genData NL)))
      else if decVal d2 = 0 then Inl NegativeRepeatCount
      else if decVal d1 = length (Split genData NL) then
        Inl (IndexOutOfRange (int (decVal d1)) (length (Split genData NL)))
      else Inr (Wrap errIn
             ([NL] @ Trim (Split genData NL ! (decVal d1 - 2)) [TAB] @ [NL]
              @ Trim (Split genData NL ! (decVal d1 - 1)) [TAB] @ [NL]
              @ replicate (decVal d2 - 1) (CHR '' '') @ ''^^^^^'' @ [NL]
              @ Trim (Split genData NL ! decVal d1) [TAB])))"
    unfolding ErrorLine_locator [OF msg d]
    using kmax cmax f by (simp only: if_False)
  show ?thesis
    unfolding eq by auto
qed

theorem ErrorLine_faults_witness:
  "ErrorLine (ErrorString ''1:1: boom'') (''a'' @ [NL] @ ''bcd'') = Inl (IndexOutOfRange (- 1) 2)
   \<and> ErrorLine (ErrorString ''2:0: boom'') (''a'' @ [NL] @ ''bcd'' @ [NL] @ ''e'')
       = Inl NegativeRepeatCount
   \<and> ErrorLine (ErrorString ''2:1: boom'') (''a'' @ [NL] @ ''bcd'') = Inl (IndexOutOfRange 2 2)"
  using ErrorLine_faults [of "ErrorString ''1:1: boom''" "''1''" "''1''" "'' boom''"
      "''a'' @ [NL] @ ''bcd''"]
    ErrorLine_faults [of "ErrorString ''2:0: boom''" "''2''" "''0''" "'' boom''"
      "''a'' @ [NL] @ ''bcd'' @ [NL] @ ''e''"]
    ErrorLine_faults [of "ErrorString ''2:1: boom''" "''2''" "''1''" "'' boom''"
      "''a'' @ [NL] @ ''bcd''"]
  by (simp add: isDigit_def decVal_def digitVal_def maxInt_def intSize_def NL_def)

lemma ErrorLine_no_locator:
  assumes "errImportsRx (Error errIn) = []"
  shows "ErrorLine errIn genData = Inr (Wrap errIn ''cant parse error message'')"
  using assms by (simp add: ErrorLine_def)

lemma ErrorLine_Inr_Wrap:
  assumes "ErrorLine errIn genData = Inr e"
  shows "\<exists>m. e = Wrap errIn m"
proof -
  consider (none) "errImportsRx (Error errIn) = []"
    | (loc) d1 d2 rest where "Error errIn = d1 @ '':'' @ d2 @ '':'' @ rest" "d1 \<noteq> []"
        "list_all isDigit d1" "d2 \<noteq> []" "list_all isDigit d2"
    using errImportsRx_cases [of "Error errIn"] by blast
  then show ?thesis
  proof cases
    case none
    then show ?thesis using assms ErrorLine_no_locator by auto
  next
    case loc
    show ?thesis
      using assms unfolding ErrorLine_locator [OF loc]
      by (auto split: if_splits)
  qed
qed

text \<open>
  C5, as amended. Every error the line mapper returns wraps the original error. Without a
  leading locator the message is the fallback. With a locator \<open>k:c:\<close>: when \<open>k\<close> fits an
  \<open>int\<close> and exceeds the number \<open>N\<close> of lines, the message reports \<open>k\<close> and \<open>N\<close>; when \<open>k\<close> does
  not fit an \<open>int\<close>, the message says the line number cannot be parsed; when
  \<open>1 \<le> k \<le> N\<close> and \<open>c\<close> fits an \<open>int\<close> and exceeds the length of line \<open>k\<close>, the message is
  the byte-not-found one with that line; when \<open>c\<close> does not fit an \<open>int\<close>, the message says
  the byte number cannot be parsed, with that line.
\<close>

theorem ErrorLine_wraps:
  "(\<forall>e. ErrorLine errIn genData = Inr e \<longrightarrow>
      Unwrap e = Some errIn \<and> (\<exists>m. e = Wrap errIn m \<and> Error e = m @ '': '' @ Error errIn))
   \<and> ((\<nexists>d1 d2 rest. Error errIn = d1 @ '':'' @ d2 @ '':'' @ rest \<and> d1 \<noteq> []
          \<and> list_all isDigit d1 \<and> d2 \<noteq> [] \<and> list_all isDigit d2) \<longrightarrow>
       ErrorLine errIn genData = Inr (Wrap errIn ''cant parse error message''))
   \<and> (Error errIn = d1 @ '':'' @ d2 @ '':'' @ rest \<and> d1 \<noteq> [] \<and> list_all isDigit d1
        \<and> d2 \<noteq> [] \<and> list_all isDigit d2 \<longrightarrow>
       (int (decVal d1) \<le> maxInt \<and> length (Split genData NL) < decVal d1 \<longrightarrow>
          ErrorLine errIn genData =
            Inr (Wrap errIn (''line num '' @ itoa (int (decVal d1)) @ '' not found (total ''
                              @ itoa (int (length (Split genData NL))) @ '')'')))
       \<and> (maxInt < int (decVal d1) \<longrightarrow>
          ErrorLine errIn genData = Inr (Wrap errIn ''can't unparse error line num''))
       \<and> (1 \<le> decVal d1 \<and> decVal d1 \<le> length (Split genData NL) \<and> int (decVal d1) \<le> maxInt \<longrightarrow>
           (int (decVal d2) \<le> maxInt \<and> length (Split genData NL ! (decVal d1 - 1)) < decVal d2 \<longrightarrow>
              ErrorLine errIn genData =
                Inr (Wrap errIn (''byte num not found in line: ''
                                  @ Split genData NL ! (decVal d1 - 1))))
         \<and> (maxInt < int (decVal d2) \<longrightarrow>
              ErrorLine errIn genData =
                Inr (Wrap errIn (''can't unparse error byte num in line: ''
                                  @ Split genData NL ! (decVal d1 - 1))))))"
proof (intro conjI allI impI)
  fix e assume "ErrorLine errIn genData = Inr e"
  then obtain m where "e = Wrap errIn m" using ErrorLine_Inr_Wrap by blast
  then show "Unwrap e = Some errIn" "\<exists>m. e = Wrap errIn m \<and> Error e = m @ '': '' @ Error errIn"
    by (simp_all add: Wrap_def)
next
  assume "\<nexists>d1 d2 rest. Error errIn = d1 @ '':'' @ d2 @ '':'' @ rest \<and> d1 \<noteq> []
          \<and> list_all isDigit d1 \<and> d2 \<noteq> [] \<and> list_all isDigit d2"
  then have "errImportsRx (Error errIn) = []"
    using errImportsRx_cases [of "Error errIn"] by blast
  then show "ErrorLine errIn genData = Inr (Wrap errIn ''cant parse error message'')"
    by (rule ErrorLine_no_locator)
next
  assume a: "Error errIn = d1 @ '':'' @ d2 @ '':'' @ rest \<and> d1 \<noteq> [] \<and> list_all isDigit d1
        \<and> d2 \<noteq> [] \<and> list_all isDigit d2"
    and b: "int (decVal d1) \<le> maxInt \<and> length (Split genData NL) < decVal d1"
  have eq: "ErrorLine errIn genData = (if maxInt < int (decVal d1) then
       Inr (Wrap errIn ''can't unparse error line num'')
     else if length (Split genData NL) < decVal d1 then
        Inr (Wrap errIn (''line num '' @ itoa (int (decVal d1)) @ '' not found (total ''
                          @ itoa (int (length (Split genData NL))) @ '')''))
     else ErrorLine errIn genData)"
    using a by (simp add: ErrorLine_locator [of errIn d1 d2 rest])
  show "ErrorLine errIn genData =
            Inr (Wrap errIn (''line num '' @ itoa (int (decVal d1)) @ '' not found (total ''
                              @ itoa (int (length (Split genData NL))) @ '')''))"
    using b by (subst eq) simp
next
  assume a: "Error errIn = d1 @ '':'' @ d2 @ '':'' @ rest \<and> d1 \<noteq> [] \<and> list_all isDigit d1
        \<and> d2 \<noteq> [] \<and> list_all isDigit d2"
    and b: "maxInt < int (decVal d1)"
  show "ErrorLine errIn genData = Inr (Wrap errIn ''can't unparse error line num'')"
    using a b by (simp add: ErrorLine_locator [of errIn d1 d2 rest])
next
  assume a: "Error errIn = d1 @ '':'' @ d2 @ '':'' @ rest \<and> d1 \<noteq> [] \<and> list_all isDigit d1
        \<and> d2 \<noteq> [] \<and> list_all isDigit d2"
    and k: "1 \<le> decVal d1 \<and> decVal d1 \<le> length (Split genData NL) \<and> int (decVal d1) \<le> maxInt"
    and c: "int (decVal d2) \<le> maxInt \<and> length (Split genData NL ! (decVal d1 - 1)) < decVal d2"
  have f: "\<not> maxInt < int (decVal d1)" "\<not> length (Split genData NL) < decVal d1"
    "decVal d1 \<noteq> 0" "\<not> maxInt < int (decVal d2)"
    using k c by simp_all
  show "ErrorLine errIn genData =
          Inr (Wrap errIn (''byte num not found in line: '' @ Split genData NL ! (decVal d1 - 1)))"
    using a f c by (simp add: ErrorLine_locator [of errIn d1 d2 rest])
next
  assume a: "Error errIn = d1 @ '':'' @ d2 @ '':'' @ rest \<and> d1 \<noteq> [] \<and> list_all isDigit d1
        \<and> d2 \<noteq> [] \<and> list_all isDigit d2"
    and k: "1 \<le> decVal d1 \<and> decVal d1 \<le> length (Split genData NL) \<and> int (decVal d1) \<le> maxInt"
    and c: "maxInt < int (decVal d2)"
  have f: "\<not> maxInt < int (decVal d1)" "\<not> length (Split genData NL) < decVal d1"
    "decVal d1 \<noteq> 0"
    using k by simp_all
  show "ErrorLine errIn genData =
          Inr (Wrap errIn (''can't unparse error byte num in line: ''
                            @ Split genData NL ! (decVal d1 - 1)))"
    using a f c by (simp add: ErrorLine_locator [of errIn d1 d2 rest])
qed

theorem ErrorLine_wraps_witness:
  "ErrorLine (ErrorString ''x.go:1:1: boom'') ''a''
     = Inr (Wrap (ErrorString ''x.go:1:1: boom'') ''cant parse error message'')
   \<and> ErrorLine (ErrorString ''7:1: boom'') (''a'' @ [NL] @ ''bcd'' @ [NL] @ ''e'')
     = Inr (Wrap (ErrorString ''7:1: boom'') ''line num 7 not found (total 3)'')
   \<and> ErrorLine (ErrorString ''2:9: boom'') (''a'' @ [NL] @ ''bcd'' @ [NL] @ ''e'')
     = Inr (Wrap (ErrorString ''2:9: boom'') ''byte num not found in line: bcd'')"
proof -
  have no: "\<nexists>d1 d2 rest. Error (ErrorString ''x.go:1:1: boom'') = d1 @ '':'' @ d2 @ '':'' @ rest
      \<and> d1 \<noteq> [] \<and> list_all isDigit d1 \<and> d2 \<noteq> [] \<and> list_all isDigit d2"
  proof
    assume "\<exists>d1 d2 rest. Error (ErrorString ''x.go:1:1: boom'') = d1 @ '':'' @ d2 @ '':'' @ rest
      \<and> d1 \<noteq> [] \<and> list_all isDigit d1 \<and> d2 \<noteq> [] \<and> list_all isDigit d2"
    then obtain d1 d2 rest where eq: "''x.go:1:1: boom'' = d1 @ '':'' @ d2 @ '':'' @ rest"
      and d1: "d1 \<noteq> []" "list_all isDigit d1"
      by auto
    from d1 obtain c r where cr: "d1 = c # r" by (cases d1) auto
    with eq have "c = CHR ''x''" by simp
    with d1 cr show False by (simp add: isDigit_def)
  qed
  have a: "ErrorLine (ErrorString ''x.go:1:1: boom'') ''a''
     = Inr (Wrap (ErrorString ''x.go:1:1: boom'') ''cant parse error message'')"
    using ErrorLine_wraps [of "ErrorString ''x.go:1:1: boom''" "''a''"] no by blast
  have b: "ErrorLine (ErrorString ''7:1: boom'') (''a'' @ [NL] @ ''bcd'' @ [NL] @ ''e'')
     = Inr (Wrap (ErrorString ''7:1: boom'') ''line num 7 not found (total 3)'')"
    using ErrorLine_wraps [of "ErrorString ''7:1: boom''" "''a'' @ [NL] @ ''bcd'' @ [NL] @ ''e''"
        "''7''" "''1''" "'' boom''"]
    by (simp add: isDigit_def decVal_def digitVal_def maxInt_def intSize_def NL_def itoa_def
        digits10.simps [of 7] digits10.simps [of 3])
  have c: "ErrorLine (ErrorString ''2:9: boom'') (''a'' @ [NL] @ ''bcd'' @ [NL] @ ''e'')
     = Inr (Wrap (ErrorString ''2:9: boom'') ''byte num not found in line: bcd'')"
    using ErrorLine_wraps [of "ErrorString ''2:9: boom''" "''a'' @ [NL] @ ''bcd'' @ [NL] @ ''e''"
        "''2''" "''9''" "'' boom''"]
    by (simp add: isDigit_def decVal_def digitVal_def maxInt_def intSize_def NL_def)
  show ?thesis using a b c by simp
qed

text \<open>
  C5 as stated fails: a line number of twenty digits exceeds the single line of the text,
  and the error returned is not the one that reports the line number and the total.
\<close>

theorem ErrorLine_line_number_counterexample:
  "length (Split ''a'' NL) < decVal ''99999999999999999999''
   \<and> ErrorLine (ErrorString ''99999999999999999999:1: boom'') ''a''
     = Inr (Wrap (ErrorString ''99999999999999999999:1: boom'') ''can't unparse error line num'')
   \<and> ErrorLine (ErrorString ''99999999999999999999:1: boom'') ''a''
     \<noteq> Inr (Wrap (ErrorString ''99999999999999999999:1: boom'')
              ''line num 99999999999999999999 not found (total 1)'')"
proof -
  have v: "decVal ''99999999999999999999'' = 99999999999999999999"
    by (simp add: decVal_def digitVal_def)
  have e: "ErrorLine (ErrorString ''99999999999999999999:1: boom'') ''a''
     = Inr (Wrap (ErrorString ''99999999999999999999:1: boom'') ''can't unparse error line num'')"
    using ErrorLine_locator [of "ErrorString ''99999999999999999999:1: boom''"
        "''99999999999999999999''" "''1''" "'' boom''" "''a''"]
    by (simp add: v isDigit_def maxInt_def intSize_def)
  show ?thesis
    unfolding e by (simp add: v Wrap_def NL_def)
qed

section \<open>The loops of the dispatcher\<close>

lemma rangeGenerated_failure:
  "rangeGenerated Process cl backend generated ret = Inr (r, Some e) \<Longrightarrow>
     r = [] \<and> diagnosticName e = PublicName (RecordPackage.Namespace cl)"
  by (induction generated arbitrary: ret) (auto split: sum.splits)

lemma rangeGenerated_success:
  "list_all (\<lambda>(name, genData). \<not> isl (Process genData)) generated \<Longrightarrow>
   rangeGenerated Process cl backend generated ret =
     Inr (ret @ map (\<lambda>(name, genData).
            \<lparr>Data = projr (Process genData), Name = name @ ''.go'',
             Dir = PackageName (RecordPackage.Namespace cl), Backend = backend\<rparr>) generated,
          None)"
  by (induction generated arbitrary: ret) (auto split: sum.splits)

lemma rangeGenerated_format_failure:
  assumes "list_all (\<lambda>(name, genData). \<not> isl (Process genData)) finished"
    and "Process genData = Inl err"
  shows "rangeGenerated Process cl backend (finished @ (name, genData) # todo) ret =
     (case ErrorLine err genData of
        Inl p \<Rightarrow> Inl p
      | Inr located \<Rightarrow>
          Inr ([], Some (GeneratorFile
            \<lparr>ErrGeneratorFile.Name = PublicName (RecordPackage.Namespace cl),
             Backend = backend, Filename = name @ ''.go'', Err = MessageError located\<rparr>)))"
  using assms by (induction finished arbitrary: ret) (auto split: sum.splits)

lemma rangeBackends_append:
  "rangeBackends List GenerateOctopus Process appInfo cl linkObject (pre @ rest) calls ret =
     (case rangeBackends List GenerateOctopus Process appInfo cl linkObject pre calls ret of
        (calls', Inr (ret', None)) \<Rightarrow>
          rangeBackends List GenerateOctopus Process appInfo cl linkObject rest calls' ret'
      | other \<Rightarrow> other)"
  by (induction pre arbitrary: calls ret)
     (auto simp: Let_def split: sum.splits option.splits prod.splits)

lemma rangeBackends_failure:
  "rangeBackends List GenerateOctopus Process appInfo cl linkObject backends calls ret
     = (calls', Inr (r, Some e)) \<Longrightarrow>
   r = [] \<and> diagnosticName e = PublicName (RecordPackage.Namespace cl)"
  by (induction backends arbitrary: calls ret)
     (auto simp: Let_def split: sum.splits option.splits prod.splits if_splits
           dest: rangeGenerated_failure)

lemma rangeBackends_calls:
  "rangeBackends List GenerateOctopus Process appInfo cl linkObject backends calls ret
     = (calls', out) \<Longrightarrow>
   fst ` set calls' \<subseteq> fst ` set calls \<union> {''tarantool15'', ''octopus''}"
proof (induction backends arbitrary: calls ret)
  case Nil
  then show ?case by auto
next
  case (Cons backend backends)
  let ?params = "(NewPkgData List appInfo cl)\<lparr>LinkedObject := linkObject\<rparr>"
  show ?case
  proof (cases "backend = ''tarantool15'' \<or> backend = ''octopus''")
    case False
    with Cons.prems show ?thesis by (auto split: if_splits)
  next
    case True
    show ?thesis
    proof (cases "\<exists>generated ret'. GenerateOctopus ?params = Inr generated
        \<and> rangeGenerated Process cl backend generated ret = Inr (ret', None)")
      case False
      with Cons.prems True show ?thesis
        by (auto simp: Let_def split: sum.splits option.splits prod.splits)
    next
      case True
      then obtain generated ret' where g: "GenerateOctopus ?params = Inr generated"
        "rangeGenerated Process cl backend generated ret = Inr (ret', None)"
        by blast
      with Cons.prems \<open>backend = ''tarantool15'' \<or> backend = ''octopus''\<close>
      have "rangeBackends List GenerateOctopus Process appInfo cl linkObject backends
          (calls @ [(backend, ?params)]) ret' = (calls', out)"
        by (auto simp: Let_def)
      from Cons.IH [OF this] \<open>backend = ''tarantool15'' \<or> backend = ''octopus''\<close>
      show ?thesis by auto
    qed
  qed
qed

lemma rangeBackends_success:
  "rangeBackends List GenerateOctopus Process appInfo cl linkObject backends calls ret
     = (calls', Inr (r, None)) \<Longrightarrow>
   set backends \<subseteq> {''tarantool15'', ''octopus''}"
  by (induction backends arbitrary: calls ret)
     (auto simp: Let_def split: sum.splits option.splits prod.splits if_splits)

lemma NewPkgData_Backends [simp]:
  "NewPkgData List appInfo (cl\<lparr>Backends := bs\<rparr>) = NewPkgData List appInfo cl"
  by (simp add: NewPkgData_def)

lemma rangeGenerated_Backends [simp]:
  "rangeGenerated Process (cl\<lparr>Backends := bs\<rparr>) backend generated ret
     = rangeGenerated Process cl backend generated ret"
  by (induction generated arbitrary: ret) (auto split: sum.splits)

lemma rangeBackends_Backends [simp]:
  "rangeBackends List GenerateOctopus Process appInfo (cl\<lparr>Backends := bs\<rparr>) linkObject
       backends calls ret
     = rangeBackends List GenerateOctopus Process appInfo cl linkObject backends calls ret"
  by (induction backends arbitrary: calls ret)
     (auto simp: Let_def split: sum.splits option.splits prod.splits)

lemma Generate_prefix:
  "Generate List GenerateOctopus Process appInfo (cl\<lparr>Backends := pre\<rparr>) linkObject
     = rangeBackends List GenerateOctopus Process appInfo cl linkObject pre [] []"
  by (simp add: Generate_def)

section \<open>The dispatcher\<close>

text \<open>
  C8. For a package whose list of backends is empty, \<open>Generate\<close> returns the empty list of
  artifacts and no error (and calls no generator), whatever else the package holds.
\<close>

theorem Generate_no_backends:
  assumes "RecordPackage.Backends cl = []"
  shows "Generate List GenerateOctopus Process appInfo cl linkObject = ([], Inr ([], None))"
  using assms by (simp add: Generate_def)

theorem Generate_no_backends_witness:
  "Generate (\<lambda>fields. []) (\<lambda>params. Inr [(''octopus'', ''package foo'')]) (\<lambda>src. Inr src)
     ''argen'' (examplePackage []) Map.empty = ([], Inr ([], None))"
  using Generate_no_backends [of "examplePackage []"]
  by (simp add: examplePackage_def)

text \<open>
  C6. Whenever \<open>Generate\<close> returns an error, the list of artifacts it returns is empty, also
  when artifacts of earlier backends or earlier outputs were already collected, and the
  diagnostic carries the display name of the package.
\<close>

theorem Generate_failure:
  assumes "snd (Generate List GenerateOctopus Process appInfo cl linkObject) = Inr (ret, Some e)"
  shows "ret = [] \<and> diagnosticName e = PublicName (RecordPackage.Namespace cl)"
proof -
  obtain calls where
    "rangeBackends List GenerateOctopus Process appInfo cl linkObject (RecordPackage.Backends cl)
       [] [] = (calls, Inr (ret, Some e))"
    using assms by (cases "Generate List GenerateOctopus Process appInfo cl linkObject")
      (simp add: Generate_def)
  then show ?thesis by (rule rangeBackends_failure)
qed

theorem Generate_failure_witness:
  "snd (Generate (\<lambda>fields. []) (\<lambda>params. Inr [(''octopus'', ''package foo'')]) (\<lambda>src. Inr src)
         ''argen'' (examplePackage [''octopus'', ''tarantool2'']) Map.empty)
     = Inr ([], Some (GeneratorFile \<lparr>ErrGeneratorFile.Name = ''Foo'', Backend = ''tarantool2'',
                        Filename = [], Err = ErrGeneratorBackendNotImplemented\<rparr>))
   \<and> diagnosticName (GeneratorFile \<lparr>ErrGeneratorFile.Name = ''Foo'', Backend = ''tarantool2'',
                        Filename = [], Err = ErrGeneratorBackendNotImplemented\<rparr>)
     = PublicName (RecordPackage.Namespace (examplePackage [''octopus'', ''tarantool2'']))"
proof -
  have h: "snd (Generate (\<lambda>fields. []) (\<lambda>params. Inr [(''octopus'', ''package foo'')])
         (\<lambda>src. Inr src) ''argen'' (examplePackage [''octopus'', ''tarantool2'']) Map.empty)
     = Inr ([], Some (GeneratorFile \<lparr>ErrGeneratorFile.Name = ''Foo'', Backend = ''tarantool2'',
                        Filename = [], Err = ErrGeneratorBackendNotImplemented\<rparr>))"
    by (simp add: Generate_def examplePackage_def Let_def)
  show ?thesis
    using h Generate_failure [OF h] by simp
qed

text \<open>
  C1, as amended. A backend of the list that is none of the five known identifiers (the two
  implemented ones and \<open>tarantool16\<close>, \<open>tarantool2\<close>, \<open>postgres\<close>), and that \<open>Generate\<close> comes to
  (it succeeds on the backends listed before), makes \<open>Generate\<close> fail with the unknown-backend
  condition, carrying the display name and the backend, with no artifacts.
\<close>

theorem Generate_unknown_backend:
  assumes bs: "RecordPackage.Backends cl = pre @ backend # post"
    and unknown: "backend \<notin> {''tarantool15'', ''octopus'', ''tarantool16'', ''tarantool2'', ''postgres''}"
    and pre: "Generate List GenerateOctopus Process appInfo (cl\<lparr>Backends := pre\<rparr>) linkObject
                = (calls, Inr (ret, None))"
  shows "Generate List GenerateOctopus Process appInfo cl linkObject =
     (calls, Inr ([], Some (GeneratorFile
        \<lparr>ErrGeneratorFile.Name = PublicName (RecordPackage.Namespace cl), Backend = backend,
         Filename = [], Err = ErrGeneratorBackendUnknown\<rparr>)))"
proof -
  have "rangeBackends List GenerateOctopus Process appInfo cl linkObject pre [] []
          = (calls, Inr (ret, None))"
    using pre by (simp add: Generate_prefix)
  then show ?thesis
    using unknown unfolding Generate_def bs rangeBackends_append by simp
qed

theorem Generate_unknown_backend_witness:
  "snd (Generate (\<lambda>fields. []) (\<lambda>params. Inr [(''octopus'', ''package foo'')]) (\<lambda>src. Inr src)
         ''argen'' (examplePackage [''octopus'', ''mysql'']) Map.empty)
     = Inr ([], Some (GeneratorFile \<lparr>ErrGeneratorFile.Name = ''Foo'', Backend = ''mysql'',
                        Filename = [], Err = ErrGeneratorBackendUnknown\<rparr>))"
proof -
  let ?G = "\<lambda>params :: PkgData. Inr [(''octopus'', ''package foo'')]
              :: ErrGeneratorPhases + (string \<times> bytes) list"
  let ?P = "\<lambda>src :: bytes. Inr src :: error + bytes"
  let ?cl = "examplePackage [''octopus'', ''mysql'']"
  obtain calls ret where pre:
    "Generate (\<lambda>fields. []) ?G ?P ''argen'' (?cl\<lparr>Backends := [''octopus'']\<rparr>) Map.empty
       = (calls, Inr (ret, None))"
    by (simp add: Generate_def examplePackage_def Let_def)
  have bs: "RecordPackage.Backends ?cl = [''octopus''] @ ''mysql'' # []"
    by (simp add: examplePackage_def)
  have unknown: "''mysql'' \<notin> {''tarantool15'', ''octopus'', ''tarantool16'', ''tarantool2'', ''postgres''}"
    by simp
  show ?thesis
    using Generate_unknown_backend [OF bs unknown pre]
    by (simp add: examplePackage_def)
qed

text \<open>
  C1 as stated fails: \<open>postgres\<close> is none of the four identifiers and is answered with
  the not-implemented condition; and an unknown identifier listed after \<open>tarantool16\<close> is
  never come to.
\<close>

theorem Generate_unknown_backend_counterexample:
  "''postgres'' \<notin> {''octopus'', ''tarantool15'', ''tarantool16'', ''tarantool2''}
   \<and> snd (Generate (\<lambda>fields. []) (\<lambda>params. Inr [(''octopus'', ''package foo'')]) (\<lambda>src. Inr src)
         ''argen'' (examplePackage [''postgres'']) Map.empty)
     = Inr ([], Some (GeneratorFile \<lparr>ErrGeneratorFile.Name = ''Foo'', Backend = ''postgres'',
                        Filename = [], Err = ErrGeneratorBackendNotImplemented\<rparr>))
   \<and> ''mysql'' \<notin> {''octopus'', ''tarantool15'', ''tarantool16'', ''tarantool2''}
   \<and> snd (Generate (\<lambda>fields. []) (\<lambda>params. Inr [(''octopus'', ''package foo'')]) (\<lambda>src. Inr src)
         ''argen'' (examplePackage [''tarantool16'', ''mysql'']) Map.empty)
     = Inr ([], Some (GeneratorFile \<lparr>ErrGeneratorFile.Name = ''Foo'', Backend = ''tarantool16'',
                        Filename = [], Err = ErrGeneratorBackendNotImplemented\<rparr>))"
  by (simp add: Generate_def examplePackage_def)

text \<open>
  C4, as amended. When the list holds \<open>tarantool16\<close> or \<open>tarantool2\<close>: no call of the octopus
  generator is made for that identifier, \<open>Generate\<close> never succeeds and returns no artifacts;
  and when \<open>Generate\<close> comes to that identifier (it succeeds on the backends listed before),
  it fails with the not-implemented condition, carrying the display name and the backend.
\<close>

theorem Generate_not_implemented:
  assumes b: "backend = ''tarantool16'' \<or> backend = ''tarantool2''"
    and mem: "backend \<in> set (RecordPackage.Backends cl)"
  shows "backend \<notin> fst ` set (fst (Generate List GenerateOctopus Process appInfo cl linkObject))
     \<and> (\<forall>ret err. snd (Generate List GenerateOctopus Process appInfo cl linkObject) = Inr (ret, err)
           \<longrightarrow> ret = [] \<and> err \<noteq> None)
     \<and> (\<forall>pre post calls ret.
           RecordPackage.Backends cl = pre @ backend # post
           \<and> Generate List GenerateOctopus Process appInfo (cl\<lparr>Backends := pre\<rparr>) linkObject
               = (calls, Inr (ret, None))
           \<longrightarrow> Generate List GenerateOctopus Process appInfo cl linkObject =
                 (calls, Inr ([], Some (GeneratorFile
                    \<lparr>ErrGeneratorFile.Name = PublicName (RecordPackage.Namespace cl),
                     Backend = backend, Filename = [],
                     Err = ErrGeneratorBackendNotImplemented\<rparr>))))"
proof (intro conjI allI impI)
  obtain calls out where g: "Generate List GenerateOctopus Process appInfo cl linkObject = (calls, out)"
    by (cases "Generate List GenerateOctopus Process appInfo cl linkObject")
  then have "rangeBackends List GenerateOctopus Process appInfo cl linkObject
      (RecordPackage.Backends cl) [] [] = (calls, out)"
    by (simp add: Generate_def)
  from rangeBackends_calls [OF this]
  have "fst ` set calls \<subseteq> {''tarantool15'', ''octopus''}"
    by simp
  then show "backend \<notin> fst ` set (fst (Generate List GenerateOctopus Process appInfo cl linkObject))"
    using b g by auto
next
  fix ret err
  assume a: "snd (Generate List GenerateOctopus Process appInfo cl linkObject) = Inr (ret, err)"
  then obtain calls where g:
    "rangeBackends List GenerateOctopus Process appInfo cl linkObject (RecordPackage.Backends cl)
       [] [] = (calls, Inr (ret, err))"
    by (cases "Generate List GenerateOctopus Process appInfo cl linkObject")
      (simp add: Generate_def)
  have ne: "err \<noteq> None"
  proof
    assume "err = None"
    with g have "set (RecordPackage.Backends cl) \<subseteq> {''tarantool15'', ''octopus''}"
      using rangeBackends_success by blast
    with mem b show False by auto
  qed
  then obtain e where "err = Some e" by auto
  with g have "ret = []" using rangeBackends_failure by blast
  with ne show "ret = []" "err \<noteq> None" by simp_all
next
  fix pre post calls ret
  assume a: "RecordPackage.Backends cl = pre @ backend # post
           \<and> Generate List GenerateOctopus Process appInfo (cl\<lparr>Backends := pre\<rparr>) linkObject
               = (calls, Inr (ret, None))"
  then have "rangeBackends List GenerateOctopus Process appInfo cl linkObject pre [] []
          = (calls, Inr (ret, None))"
    by (simp add: Generate_prefix)
  then show "Generate List GenerateOctopus Process appInfo cl linkObject =
                 (calls, Inr ([], Some (GeneratorFile
                    \<lparr>ErrGeneratorFile.Name = PublicName (RecordPackage.Namespace cl),
                     Backend = backend, Filename = [],
                     Err = ErrGeneratorBackendNotImplemented\<rparr>)))"
    using a b unfolding Generate_def by (auto simp: rangeBackends_append)
qed

theorem Generate_not_implemented_witness:
  "''tarantool16'' \<notin> fst ` set (fst (Generate (\<lambda>fields. [])
         (\<lambda>params. Inr [(''octopus'', ''package foo'')]) (\<lambda>src. Inr src)
         ''argen'' (examplePackage [''octopus'', ''tarantool16'']) Map.empty))
   \<and> snd (Generate (\<lambda>fields. []) (\<lambda>params. Inr [(''octopus'', ''package foo'')]) (\<lambda>src. Inr src)
         ''argen'' (examplePackage [''octopus'', ''tarantool16'']) Map.empty)
     = Inr ([], Some (GeneratorFile \<lparr>ErrGeneratorFile.Name = ''Foo'', Backend = ''tarantool16'',
                        Filename = [], Err = ErrGeneratorBackendNotImplemented\<rparr>))"
proof -
  let ?G = "\<lambda>params :: PkgData. Inr [(''octopus'', ''package foo'')]
              :: ErrGeneratorPhases + (string \<times> bytes) list"
  let ?P = "\<lambda>src :: bytes. Inr src :: error + bytes"
  let ?cl = "examplePackage [''octopus'', ''tarantool16'']"
  have b: "''tarantool16'' = ''tarantool16'' \<or> ''tarantool16'' = ''tarantool2''"
    by simp
  have mem: "''tarantool16'' \<in> set (RecordPackage.Backends ?cl)"
    by (simp add: examplePackage_def)
  note t = Generate_not_implemented [OF b mem, of "\<lambda>fields. []" ?G ?P "''argen''" Map.empty]
  obtain calls ret where pre:
    "Generate (\<lambda>fields. []) ?G ?P ''argen'' (?cl\<lparr>Backends := [''octopus'']\<rparr>) Map.empty
       = (calls, Inr (ret, None))"
    by (simp add: Generate_def examplePackage_def Let_def)
  have bs: "RecordPackage.Backends ?cl = [''octopus''] @ ''tarantool16'' # []"
    by (simp add: examplePackage_def)
  from t bs pre have "Generate (\<lambda>fields. []) ?G ?P ''argen'' ?cl Map.empty =
     (calls, Inr ([], Some (GeneratorFile
        \<lparr>ErrGeneratorFile.Name = PublicName (RecordPackage.Namespace ?cl),
         Backend = ''tarantool16'', Filename = [], Err = ErrGeneratorBackendNotImplemented\<rparr>)))"
    by blast
  then have "snd (Generate (\<lambda>fields. []) ?G ?P ''argen'' ?cl Map.empty)
     = Inr ([], Some (GeneratorFile \<lparr>ErrGeneratorFile.Name = ''Foo'', Backend = ''tarantool16'',
                        Filename = [], Err = ErrGeneratorBackendNotImplemented\<rparr>))"
    by (simp add: examplePackage_def)
  with t show ?thesis by blast
qed

text \<open>
  C4 as stated fails: with an unknown identifier listed before \<open>tarantool16\<close>, \<open>Generate\<close>
  fails with the unknown-backend condition of the earlier identifier.
\<close>

theorem Generate_not_implemented_counterexample:
  "''tarantool16'' \<in> set (RecordPackage.Backends (examplePackage [''mysql'', ''tarantool16'']))
   \<and> snd (Generate (\<lambda>fields. []) (\<lambda>params. Inr [(''octopus'', ''package foo'')]) (\<lambda>src. Inr src)
         ''argen'' (examplePackage [''mysql'', ''tarantool16'']) Map.empty)
     = Inr ([], Some (GeneratorFile \<lparr>ErrGeneratorFile.Name = ''Foo'', Backend = ''mysql'',
                        Filename = [], Err = ErrGeneratorBackendUnknown\<rparr>))"
  by (simp add: Generate_def examplePackage_def)

text \<open>
  C10. When \<open>imports.Process\<close> fails on a rendered buffer, in \<open>Generate\<close> (on the first output
  it rejects) and in \<open>GenerateMeta\<close>, the error of the diagnostic is the line mapper applied
  to the error of \<open>imports.Process\<close> and to that same rendered buffer, as it was before
  normalization; a panic of the line mapper is a panic of the caller.
\<close>

theorem format_failure_context:
  "(RecordPackage.Backends cl = pre @ backend # post
      \<and> (backend = ''tarantool15'' \<or> backend = ''octopus'')
      \<and> Generate List GenerateOctopus Process appInfo (cl\<lparr>Backends := pre\<rparr>) linkObject
          = (calls, Inr (ret, None))
      \<and> GenerateOctopus ((NewPkgData List appInfo cl)\<lparr>LinkedObject := linkObject\<rparr>)
          = Inr (finished @ (name, genData) # todo)
      \<and> list_all (\<lambda>(name, genData). \<not> isl (Process genData)) finished
      \<and> Process genData = Inl err
    \<longrightarrow> snd (Generate List GenerateOctopus Process appInfo cl linkObject) =
         (case ErrorLine err genData of
            Inl p \<Rightarrow> Inl p
          | Inr located \<Rightarrow>
              Inr ([], Some (GeneratorFile
                \<lparr>ErrGeneratorFile.Name = PublicName (RecordPackage.Namespace cl),
                 Backend = backend, Filename = name @ ''.go'', Err = MessageError located\<rparr>))))
   \<and> (Parse TemplateName (disclaimer @ MetaTmpl) = Inr t
      \<and> Execute t params = (metaData, None)
      \<and> ProcessMeta metaData = Inl errMeta
    \<longrightarrow> GenerateMeta Parse Execute getTmplErrorLine ProcessMeta MetaTmpl params =
         (case ErrorLine errMeta metaData of
            Inl p \<Rightarrow> Inl p
          | Inr located \<Rightarrow>
              Inr ([], Some \<lparr>ErrGeneratorFile.Name = ''repository.go'', Backend = ''meta'',
                              Filename = ''repository.go'', Err = MessageError located\<rparr>)))"
proof (intro conjI impI)
  assume a: "RecordPackage.Backends cl = pre @ backend # post
      \<and> (backend = ''tarantool15'' \<or> backend = ''octopus'')
      \<and> Generate List GenerateOctopus Process appInfo (cl\<lparr>Backends := pre\<rparr>) linkObject
          = (calls, Inr (ret, None))
      \<and> GenerateOctopus ((NewPkgData List appInfo cl)\<lparr>LinkedObject := linkObject\<rparr>)
          = Inr (finished @ (name, genData) # todo)
      \<and> list_all (\<lambda>(name, genData). \<not> isl (Process genData)) finished
      \<and> Process genData = Inl err"
  then have pre: "rangeBackends List GenerateOctopus Process appInfo cl linkObject pre [] []
          = (calls, Inr (ret, None))"
    by (simp add: Generate_prefix)
  from a have rg: "rangeGenerated Process cl backend (finished @ (name, genData) # todo) ret =
     (case ErrorLine err genData of
        Inl p \<Rightarrow> Inl p
      | Inr located \<Rightarrow>
          Inr ([], Some (GeneratorFile
            \<lparr>ErrGeneratorFile.Name = PublicName (RecordPackage.Namespace cl),
             Backend = backend, Filename = name @ ''.go'', Err = MessageError located\<rparr>)))"
    using rangeGenerated_format_failure by blast
  from a have bs: "RecordPackage.Backends cl = pre @ backend # post"
    and b: "backend = ''tarantool15'' \<or> backend = ''octopus''"
    and g: "GenerateOctopus ((NewPkgData List appInfo cl)\<lparr>LinkedObject := linkObject\<rparr>)
          = Inr (finished @ (name, genData) # todo)"
    by simp_all
  show "snd (Generate List GenerateOctopus Process appInfo cl linkObject) =
         (case ErrorLine err genData of
            Inl p \<Rightarrow> Inl p
          | Inr located \<Rightarrow>
              Inr ([], Some (GeneratorFile
                \<lparr>ErrGeneratorFile.Name = PublicName (RecordPackage.Namespace cl),
                 Backend = backend, Filename = name @ ''.go'', Err = MessageError located\<rparr>)))"
    unfolding Generate_def bs rangeBackends_append pre
    using b g rg by (auto simp: Let_def split: sum.splits)
next
  assume a: "Parse TemplateName (disclaimer @ MetaTmpl) = Inr t
      \<and> Execute t params = (metaData, None)
      \<and> ProcessMeta metaData = Inl errMeta"
  then show "GenerateMeta Parse Execute getTmplErrorLine ProcessMeta MetaTmpl params =
         (case ErrorLine errMeta metaData of
            Inl p \<Rightarrow> Inl p
          | Inr located \<Rightarrow>
              Inr ([], Some \<lparr>ErrGeneratorFile.Name = ''repository.go'', Backend = ''meta'',
                              Filename = ''repository.go'', Err = MessageError located\<rparr>))"
    by (simp add: GenerateMeta_def GenerateByTmpl_def)
qed

theorem format_failure_context_witness:
  "snd (Generate (\<lambda>fields. [])
          (\<lambda>params. Inr [(''octopus'', ''package foo'' @ [NL] @ ''func {'' @ [NL] @ ''}'' @ [NL])])
          (\<lambda>src. Inl (ErrorString ''2:6: expected name''))
          ''argen'' (examplePackage [''octopus'']) Map.empty)
     = Inr ([], Some (GeneratorFile
         \<lparr>ErrGeneratorFile.Name = ''Foo'', Backend = ''octopus'', Filename = ''octopus.go'',
          Err = MessageError (Wrap (ErrorString ''2:6: expected name'')
                  ([NL] @ ''package foo'' @ [NL] @ ''func {'' @ [NL] @ ''     ^^^^^'' @ [NL]
                   @ ''}''))\<rparr>))
   \<and> GenerateMeta (\<lambda>name text. Inr text)
          (\<lambda>t params. (''package foo'' @ [NL] @ ''func {'' @ [NL] @ ''}'' @ [NL], None))
          (\<lambda>lines msg. ([], None))
          (\<lambda>src. Inl (ErrorString ''2:6: expected name''))
          ''package repository'' \<lparr>Namespaces = [], AppInfo = ''argen''\<rparr>
     = Inr ([], Some
         \<lparr>ErrGeneratorFile.Name = ''repository.go'', Backend = ''meta'',
          Filename = ''repository.go'',
          Err = MessageError (Wrap (ErrorString ''2:6: expected name'')
                  ([NL] @ ''package foo'' @ [NL] @ ''func {'' @ [NL] @ ''     ^^^^^'' @ [NL]
                   @ ''}''))\<rparr>)"
proof -
  let ?raw = "''package foo'' @ [NL] @ ''func {'' @ [NL] @ ''}'' @ [NL]"
  let ?err = "ErrorString ''2:6: expected name''"
  let ?G = "\<lambda>params :: PkgData. Inr [(''octopus'', ?raw)]
              :: ErrGeneratorPhases + (string \<times> bytes) list"
  let ?P = "\<lambda>src :: bytes. Inl ?err :: error + bytes"
  let ?cl = "examplePackage [''octopus'']"
  have e: "ErrorLine ?err ?raw =
      Inr (Wrap ?err ([NL] @ ''package foo'' @ [NL] @ ''func {'' @ [NL] @ ''     ^^^^^'' @ [NL]
                      @ ''}''))"
    using ErrorLine_locator [of ?err "''2''" "''6''" "'' expected name''" ?raw]
    by (simp add: isDigit_def decVal_def digitVal_def maxInt_def intSize_def NL_def TAB_def
        Trim_def eval_nat_numeral)
  note t = format_failure_context [where cl = ?cl and pre = "[]" and backend = "''octopus''"
      and post = "[]" and List = "\<lambda>fields. []" and GenerateOctopus = ?G and Process = ?P
      and appInfo = "''argen''" and linkObject = Map.empty and calls = "[]" and ret = "[]"
      and finished = "[]" and name = "''octopus''" and genData = ?raw and todo = "[]"
      and err = ?err and Parse = "\<lambda>name text. Inr text" and MetaTmpl = "''package repository''"
      and t = "disclaimer @ ''package repository''"
      and Execute = "\<lambda>t params. (?raw, None)"
      and params = "\<lparr>Namespaces = [], AppInfo = ''argen''\<rparr>" and metaData = ?raw
      and ProcessMeta = ?P and errMeta = ?err and getTmplErrorLine = "\<lambda>lines msg. ([], None)"]
  have a: "snd (Generate (\<lambda>fields. []) ?G ?P ''argen'' ?cl Map.empty)
     = Inr ([], Some (GeneratorFile
         \<lparr>ErrGeneratorFile.Name = ''Foo'', Backend = ''octopus'', Filename = ''octopus.go'',
          Err = MessageError (Wrap ?err
                  ([NL] @ ''package foo'' @ [NL] @ ''func {'' @ [NL] @ ''     ^^^^^'' @ [NL]
                   @ ''}''))\<rparr>))"
    using conjunct1 [OF t] unfolding e
    by (simp add: examplePackage_def Generate_def)
  have b: "GenerateMeta (\<lambda>name text. Inr text) (\<lambda>t params. (?raw, None))
          (\<lambda>lines msg. ([], None)) ?P
          ''package repository'' \<lparr>Namespaces = [], AppInfo = ''argen''\<rparr>
     = Inr ([], Some
         \<lparr>ErrGeneratorFile.Name = ''repository.go'', Backend = ''meta'',
          Filename = ''repository.go'',
          Err = MessageError (Wrap ?err
                  ([NL] @ ''package foo'' @ [NL] @ ''func {'' @ [NL] @ ''     ^^^^^'' @ [NL]
                   @ ''}''))\<rparr>)"
    using conjunct2 [OF t] unfolding e by simp
  show ?thesis using a b by simp
qed

section \<open>The artifacts of a successful dispatch\<close>

text \<open>
  For the single backend \<open>octopus\<close> whose outputs all pass \<open>imports.Process\<close>, there is one
  artifact for each output of the generator, in the order of the loop: its backend is
  \<open>octopus\<close>, its name is the key of the output with \<open>.go\<close>, its directory is the package name,
  its data is what \<open>imports.Process\<close> returns. The generator is called with the given
  \<open>appInfo\<close> in its parameters.
\<close>

lemma Generate_octopus_artifacts:
  assumes "RecordPackage.Backends cl = [''octopus'']"
    and "GenerateOctopus ((NewPkgData List appInfo cl)\<lparr>LinkedObject := linkObject\<rparr>)
           = Inr generated"
    and "list_all (\<lambda>(name, genData). \<not> isl (Process genData)) generated"
  shows "Generate List GenerateOctopus Process appInfo cl linkObject =
     ([(''octopus'', (NewPkgData List appInfo cl)\<lparr>LinkedObject := linkObject\<rparr>)],
      Inr (map (\<lambda>(name, genData).
              \<lparr>Data = projr (Process genData), Name = name @ ''.go'',
               Dir = PackageName (RecordPackage.Namespace cl), Backend = ''octopus''\<rparr>) generated,
           None))"
  using assms by (simp add: Generate_def Let_def rangeGenerated_success)

lemma NewPkgData_AppInfo:
  "PkgData.AppInfo ((NewPkgData List appInfo cl)\<lparr>LinkedObject := linkObject\<rparr>) = appInfo"
  by (simp add: NewPkgData_def)

section \<open>The phases of a rendering\<close>

text \<open>
  C9. \<open>GenerateByTmpl\<close> returns a diagnostic of phase \<open>parse\<close> exactly when parsing the
  template with the banner in front fails, one of phase \<open>execute\<close> exactly when the parsed
  template fails on the parameters, and none exactly when both succeed. The diagnostic holds
  the error of the failing step, the name given as backend, and the lines computed by
  \<open>getTmplErrorLine\<close> from the banner and the template split after each newline (the text of
  its own error when it fails).
\<close>

theorem GenerateByTmpl_phases:
  "((\<exists>d. snd (GenerateByTmpl Parse Execute getTmplErrorLine dstFile params name tmpl) = Some d
          \<and> Phase d = ''parse'')
      = isl (Parse TemplateName (disclaimer @ tmpl)))
   \<and> ((\<exists>d. snd (GenerateByTmpl Parse Execute getTmplErrorLine dstFile params name tmpl) = Some d
          \<and> Phase d = ''execute'')
      = (\<exists>t. Parse TemplateName (disclaimer @ tmpl) = Inr t \<and> snd (Execute t params) \<noteq> None))
   \<and> ((snd (GenerateByTmpl Parse Execute getTmplErrorLine dstFile params name tmpl) = None)
      = (\<exists>t. Parse TemplateName (disclaimer @ tmpl) = Inr t \<and> snd (Execute t params) = None))
   \<and> (\<forall>d. snd (GenerateByTmpl Parse Execute getTmplErrorLine dstFile params name tmpl) = Some d
        \<longrightarrow> (Parse TemplateName (disclaimer @ tmpl) = Inl (ErrGeneratorPhases.Err d)
             \<or> (\<exists>t. Parse TemplateName (disclaimer @ tmpl) = Inr t
                    \<and> snd (Execute t params) = Some (ErrGeneratorPhases.Err d)))
          \<and> ErrGeneratorPhases.Backend d = name
          \<and> TmplLines d =
              (case getTmplErrorLine (SplitAfter (disclaimer @ tmpl) NL)
                      (Error (ErrGeneratorPhases.Err d)) of
                 (tmplLines, None) \<Rightarrow> tmplLines
               | (tmplLines, Some errgetline) \<Rightarrow> Error errgetline))"
proof (cases "Parse TemplateName (disclaimer @ tmpl)")
  case (Inl err)
  then show ?thesis
    by (simp add: GenerateByTmpl_def tmplLinesOf_def)
next
  case (Inr t)
  show ?thesis
  proof (cases "Execute t params")
    case (Pair written eo)
    show ?thesis
    proof (cases eo)
      case None
      with Inr Pair show ?thesis
        by (simp add: GenerateByTmpl_def)
    next
      case (Some err)
      with Inr Pair show ?thesis
        by (simp add: GenerateByTmpl_def tmplLinesOf_def)
    qed
  qed
qed

theorem GenerateByTmpl_phases_witness:
  "snd (GenerateByTmpl
          (\<lambda>name text. Inl (ErrorString ''template: ARPkgTemplate:8: function x not defined'')
             :: error + string)
          (\<lambda>t params. ([], None)) (\<lambda>lines msg. (lines ! 7, None))
          [] ''argen'' ''octopus'' ''{{ x }}'')
     = Some \<lparr>ErrGeneratorPhases.Name = [], Backend = ''octopus'', Phase = ''parse'',
              TmplLines = ''{{ x }}'',
              Err = ErrorString ''template: ARPkgTemplate:8: function x not defined''\<rparr>
   \<and> snd (GenerateByTmpl (\<lambda>name text. Inr text)
          (\<lambda>t params. (''// Code'', Some (ErrorString ''template: ARPkgTemplate:8:3: no field'')))
          (\<lambda>lines msg. (lines ! 7, None))
          [] ''argen'' ''octopus'' ''{{ .X }}'')
     = Some \<lparr>ErrGeneratorPhases.Name = [], Backend = ''octopus'', Phase = ''execute'',
              TmplLines = ''{{ .X }}'',
              Err = ErrorString ''template: ARPkgTemplate:8:3: no field''\<rparr>"
proof -
  let ?e1 = "ErrorString ''template: ARPkgTemplate:8: function x not defined''"
  let ?e2 = "ErrorString ''template: ARPkgTemplate:8:3: no field''"
  let ?g = "\<lambda>(lines :: string list) (msg :: string). (lines ! 7, None :: error option)"
  have l1: "SplitAfter (disclaimer @ ''{{ x }}'') NL ! 7 = ''{{ x }}''"
    by (simp add: disclaimer_def NL_def)
  have l2: "SplitAfter (disclaimer @ ''{{ .X }}'') NL ! 7 = ''{{ .X }}''"
    by (simp add: disclaimer_def NL_def)
  note t1 = GenerateByTmpl_phases [where Parse = "\<lambda>name text. Inl ?e1 :: error + string"
      and Execute = "\<lambda>(t :: string) (params :: string). ([], None)"
      and getTmplErrorLine = ?g and dstFile = "[]" and params = "''argen''"
      and name = "''octopus''" and tmpl = "''{{ x }}''"]
  note t2 = GenerateByTmpl_phases [where Parse = "\<lambda>name text. Inr text :: error + string"
      and Execute = "\<lambda>(t :: string) (params :: string). (''// Code'', Some ?e2)"
      and getTmplErrorLine = ?g and dstFile = "[]" and params = "''argen''"
      and name = "''octopus''" and tmpl = "''{{ .X }}''"]
  from t1 obtain d1 where d1:
    "snd (GenerateByTmpl (\<lambda>name text. Inl ?e1 :: error + string)
       (\<lambda>(t :: string) (params :: string). ([], None)) ?g [] ''argen'' ''octopus'' ''{{ x }}'')
      = Some d1" "Phase d1 = ''parse''"
    by auto
  with t1 have p1: "ErrGeneratorPhases.Err d1 = ?e1" "ErrGeneratorPhases.Backend d1 = ''octopus''"
    "TmplLines d1 = ''{{ x }}''"
    by (auto simp: l1)
  from t2 obtain d2 where d2:
    "snd (GenerateByTmpl (\<lambda>name text. Inr text :: error + string)
       (\<lambda>(t :: string) (params :: string). (''// Code'', Some ?e2)) ?g [] ''argen'' ''octopus''
       ''{{ .X }}'') = Some d2" "Phase d2 = ''execute''"
    by auto
  with t2 have p2: "ErrGeneratorPhases.Err d2 = ?e2" "ErrGeneratorPhases.Backend d2 = ''octopus''"
    "TmplLines d2 = ''{{ .X }}''"
    by (auto simp: l2)
  have n1: "ErrGeneratorPhases.Name d1 = []"
    using d1 by (auto simp: GenerateByTmpl_def)
  have n2: "ErrGeneratorPhases.Name d2 = []"
    using d2 by (auto simp: GenerateByTmpl_def)
  have r1: "d1 = \<lparr>ErrGeneratorPhases.Name = [], Backend = ''octopus'', Phase = ''parse'',
              TmplLines = ''{{ x }}'', Err = ?e1\<rparr>"
    using d1(2) p1 n1 by (cases d1) simp
  have r2: "d2 = \<lparr>ErrGeneratorPhases.Name = [], Backend = ''octopus'', Phase = ''execute'',
              TmplLines = ''{{ .X }}'', Err = ?e2\<rparr>"
    using d2(2) p2 n2 by (cases d2) simp
  show ?thesis
    using d1(1) d2(1) unfolding r1 r2 by simp
qed

end
